theory Spec2Isabelle
  imports Main
begin

section \<open>Python values\<close>

text \<open>
  A Python \<open>str\<close> is a sequence of Unicode code points, so a string is a list of
  code points here. \<open>ustr\<close> turns an ASCII literal into such a list.
\<close>

type_synonym ustring = "nat list"

definition ustr :: "string \<Rightarrow> ustring" where
  "ustr s = map of_char s"

text \<open>
  The values \<open>json.loads\<close> and \<open>response.json()\<close> produce. \<open>JNull\<close> is Python's
  \<open>None\<close>. A \<open>JObj\<close> is a dict, looked up from the front. Numbers are integers: the
  code below uses a number only through its truth value, through \<open>== 0\<close> and as a
  number of seconds.
\<close>

datatype json =
    JNull
  | JBool bool
  | JNum int
  | JStr ustring
  | JArr "json list"
  | JObj "(ustring \<times> json) list"

text \<open>\<open>d.get(k, default)\<close>; \<open>None\<close> is the AttributeError of a value with no \<open>get\<close>.\<close>

fun dict_get :: "json \<Rightarrow> ustring \<Rightarrow> json \<Rightarrow> json option" where
  "dict_get (JObj kvs) k d = Some (case map_of kvs k of None \<Rightarrow> d | Some v \<Rightarrow> v)"
| "dict_get JNull k d = None"
| "dict_get (JBool b) k d = None"
| "dict_get (JNum n) k d = None"
| "dict_get (JStr s) k d = None"
| "dict_get (JArr xs) k d = None"

text \<open>Whether a value is a dict, the only kind with a \<open>get\<close>.\<close>

fun is_dict :: "json \<Rightarrow> bool" where
  "is_dict (JObj kvs) = True"
| "is_dict v = False"

text \<open>The truth value of \<open>if v:\<close>.\<close>

fun truthy :: "json \<Rightarrow> bool" where
  "truthy JNull = False"
| "truthy (JBool b) = b"
| "truthy (JNum n) = (n \<noteq> 0)"
| "truthy (JStr s) = (s \<noteq> [])"
| "truthy (JArr xs) = (xs \<noteq> [])"
| "truthy (JObj kvs) = (kvs \<noteq> [])"

text \<open>
  \<open>for x in v\<close>: a list gives its items, a dict its keys, a string its characters;
  \<open>None\<close> is the TypeError of a value that is not iterable.
\<close>

fun py_iter :: "json \<Rightarrow> json list option" where
  "py_iter (JArr xs) = Some xs"
| "py_iter (JObj kvs) = Some (map JStr (remdups (map fst kvs)))"
| "py_iter (JStr s) = Some (map (\<lambda>c. JStr [c]) s)"
| "py_iter JNull = None"
| "py_iter (JBool b) = None"
| "py_iter (JNum n) = None"

text \<open>\<open>sep.join(items)\<close> raises TypeError unless every item is a \<open>str\<close>.\<close>

fun as_strs :: "json list \<Rightarrow> ustring list option" where
  "as_strs [] = Some []"
| "as_strs (JStr s # vs) = (case as_strs vs of None \<Rightarrow> None | Some ss \<Rightarrow> Some (s # ss))"
| "as_strs (v # vs) = None"

fun py_join :: "ustring \<Rightarrow> ustring list \<Rightarrow> ustring" where
  "py_join sep [] = []"
| "py_join sep [s] = s"
| "py_join sep (s # t # ss) = s @ sep @ py_join sep (t # ss)"

text \<open>The code points \<open>str.isspace\<close> accepts, which \<open>str.strip()\<close> removes at both ends.\<close>

definition isspace :: "nat \<Rightarrow> bool" where
  "isspace c \<longleftrightarrow>
     (0x9 \<le> c \<and> c \<le> 0xD) \<or> (0x1C \<le> c \<and> c \<le> 0x20) \<or> c = 0x85 \<or> c = 0xA0 \<or>
     c = 0x1680 \<or> (0x2000 \<le> c \<and> c \<le> 0x200A) \<or> c = 0x2028 \<or> c = 0x2029 \<or>
     c = 0x202F \<or> c = 0x205F \<or> c = 0x3000"

definition strip :: "ustring \<Rightarrow> ustring" where
  "strip s = rev (dropWhile isspace (rev (dropWhile isspace s)))"

section \<open>The result artifact: \<open>download_and_parse_transcription\<close>\<close>

definition parse_failed :: ustring where
  "parse_failed = [0x8f6c, 0x5f55, 0x6587, 0x4ef6, 0x89e3, 0x6790, 0x5931, 0x8d25]"

text \<open>
  The loop over the paragraphs, \<open>all_text\<close> being the list built so far. \<open>None\<close> is an
  exception raised in the body.
\<close>

fun collect_paragraphs :: "json list \<Rightarrow> ustring list \<Rightarrow> ustring list option" where
  "collect_paragraphs [] all_text = Some all_text"
| "collect_paragraphs (para # rest) all_text =
     (case dict_get para (ustr ''Words'') (JArr []) of
        None \<Rightarrow> None
      | Some words \<Rightarrow>
          if truthy words then
            (case py_iter words of
               None \<Rightarrow> None
             | Some ws \<Rightarrow>
                 (case those (map (\<lambda>word. dict_get word (ustr ''Text'') (JStr [])) ws) of
                    None \<Rightarrow> None
                  | Some texts \<Rightarrow>
                      (case as_strs texts of
                         None \<Rightarrow> None
                       | Some strs \<Rightarrow>
                           (let para_text = py_join [] strs in
                            if strip para_text \<noteq> []
                            then collect_paragraphs rest (all_text @ [strip para_text])
                            else collect_paragraphs rest all_text))))
          else collect_paragraphs rest all_text)"

text \<open>The body of the \<open>try\<close> once the document is there.\<close>

definition parse_document :: "json \<Rightarrow> ustring option" where
  "parse_document data =
     (case dict_get data (ustr ''Transcription'') (JObj []) of
        None \<Rightarrow> None
      | Some tr \<Rightarrow>
          (case dict_get tr (ustr ''Paragraphs'') (JArr []) of
             None \<Rightarrow> None
           | Some paragraphs \<Rightarrow>
               (case py_iter paragraphs of
                  None \<Rightarrow> None
                | Some paras \<Rightarrow>
                    (case collect_paragraphs paras [] of
                       None \<Rightarrow> None
                     | Some all_text \<Rightarrow> Some (py_join [0xA] all_text)))))"

text \<open>
  \<open>http_get url\<close> stands for \<open>requests.get\<close>, \<open>raise_for_status\<close> and
  \<open>response.json()\<close>: the document, or \<open>None\<close> when one of them raises. Every
  exception ends in the fixed string \<open>parse_failed\<close>.
\<close>

definition download_and_parse_transcription :: "(json \<Rightarrow> json option) \<Rightarrow> json \<Rightarrow> ustring" where
  "download_and_parse_transcription http_get transcription_url =
     (case http_get transcription_url of
        None \<Rightarrow> parse_failed
      | Some data \<Rightarrow> (case parse_document data of None \<Rightarrow> parse_failed | Some full_text \<Rightarrow> full_text))"

text \<open>The artifact whose paragraphs hold the given word fragments.\<close>

definition word_entry :: "ustring \<Rightarrow> json" where
  "word_entry t = JObj [(ustr ''Text'', JStr t)]"

definition paragraph_entry :: "ustring list \<Rightarrow> json" where
  "paragraph_entry ws = JObj [(ustr ''Words'', JArr (map word_entry ws))]"

definition artifact :: "ustring list list \<Rightarrow> json" where
  "artifact ps =
     JObj [(ustr ''Transcription'', JObj [(ustr ''Paragraphs'', JArr (map paragraph_entry ps))])]"

text \<open>
  The parse as the specification words it: fragments concatenated, the paragraph trimmed,
  empty paragraphs dropped, the rest joined by one newline.
\<close>

definition flatten_paragraphs :: "ustring list list \<Rightarrow> ustring" where
  "flatten_paragraphs ps = py_join [0xA] (filter (\<lambda>p. p \<noteq> []) (map (\<lambda>ws. strip (concat ws)) ps))"

section \<open>The transcription job: \<open>transcribe_audio\<close>\<close>

text \<open>
  What the function does to the outside is a trace: the status queries, numbered from 0,
  and the sleeps, in seconds.
\<close>

datatype event = Query nat | Sleep int

text \<open>
  The collaborators. \<open>upload\<close> is what \<open>upload_file_to_oss\<close> returns (a URL or
  \<open>None\<close>); \<open>submit_response\<close> and \<open>status_response i\<close> are the parsed answers of
  the job service to the submission and to the \<open>i\<close>-th status query, \<open>None\<close> when the
  call, the configuration or the decoding raises; \<open>http_get\<close> downloads the artifact;
  \<open>str_other\<close> is Python's \<open>str()\<close> on a value that is not a string.
\<close>

record collaborators =
  upload :: "ustring option"
  submit_response :: "json option"
  status_response :: "nat \<Rightarrow> json option"
  http_get :: "json \<Rightarrow> json option"
  str_other :: "json \<Rightarrow> ustring"

text \<open>A value inside an f-string.\<close>

definition py_format :: "(json \<Rightarrow> ustring) \<Rightarrow> json \<Rightarrow> ustring" where
  "py_format other v = (case v of JStr s \<Rightarrow> s | _ \<Rightarrow> other v)"

text \<open>
  \<open>submit_transcription_task\<close>: the task id of the answer, \<open>None\<close> on any exception.
\<close>

definition submit_transcription_task :: "json option \<Rightarrow> json" where
  "submit_transcription_task response =
     (case response of
        None \<Rightarrow> JNull
      | Some response_dict \<Rightarrow>
          (case dict_get response_dict (ustr ''Data'') (JObj []) of
             None \<Rightarrow> JNull
           | Some data \<Rightarrow>
               (case dict_get data (ustr ''TaskId'') JNull of
                  None \<Rightarrow> JNull
                | Some task_id \<Rightarrow> task_id)))"

text \<open>
  \<open>get_task_result\<close>: the answer itself, \<open>None\<close> on any exception; the log line reads
  the status and so raises on an answer whose \<open>Data\<close> is no dict.
\<close>

definition get_task_result :: "json option \<Rightarrow> json" where
  "get_task_result response =
     (case response of
        None \<Rightarrow> JNull
      | Some response_dict \<Rightarrow>
          (case dict_get response_dict (ustr ''Data'') (JObj []) of
             None \<Rightarrow> JNull
           | Some data \<Rightarrow>
               (case dict_get data (ustr ''TaskStatus'') (JStr (ustr ''Unknown'')) of
                  None \<Rightarrow> JNull
                | Some status \<Rightarrow> response_dict)))"

definition max_retries_poll :: nat where
  "max_retries_poll = 30"

definition retry_interval :: int where
  "retry_interval = 10"

definition msg_no_result_url :: ustring where
  "msg_no_result_url =
     [0x8f6c, 0x5f55, 0x6210, 0x529f, 0xff0c, 0x4f46, 0x672a, 0x627e, 0x5230, 0x7ed3, 0x679c,
      0x6587, 0x4ef6, 0x55, 0x52, 0x4c]"

definition msg_failed_prefix :: ustring where
  "msg_failed_prefix = [0x4efb, 0x52a1, 0x5904, 0x7406, 0x5931, 0x8d25, 0x3a, 0x20, 0x5b]"

definition msg_unknown_error :: ustring where
  "msg_unknown_error = [0x672a, 0x77e5, 0x9519, 0x8bef]"

definition msg_invalid :: ustring where
  "msg_invalid =
     [0x4efb, 0x52a1, 0x65e0, 0x6548, 0xff0c, 0x8bf7, 0x68c0, 0x67e5, 0x8f93, 0x5165, 0x53c2,
      0x6570]"

definition msg_timeout :: ustring where
  "msg_timeout = [0x4efb, 0x52a1, 0x5904, 0x7406, 0x8d85, 0x65f6]"

text \<open>The branch of a \<open>COMPLETED\<close> answer; \<open>None\<close> is the outer \<open>except\<close>.\<close>

definition on_completed :: "collaborators \<Rightarrow> json \<Rightarrow> ustring option" where
  "on_completed env data =
     (case dict_get data (ustr ''Result'') (JObj []) of
        None \<Rightarrow> None
      | Some transcription_result \<Rightarrow>
          (case dict_get transcription_result (ustr ''Transcription'') JNull of
             None \<Rightarrow> None
           | Some transcription_url \<Rightarrow>
               if truthy transcription_url
               then Some (download_and_parse_transcription (http_get env) transcription_url)
               else Some msg_no_result_url))"

definition on_failed :: "collaborators \<Rightarrow> json \<Rightarrow> ustring option" where
  "on_failed env data =
     (case dict_get data (ustr ''ErrorCode'') (JStr []) of
        None \<Rightarrow> None
      | Some error_code \<Rightarrow>
          (case dict_get data (ustr ''ErrorMessage'') (JStr msg_unknown_error) of
             None \<Rightarrow> None
           | Some error_message \<Rightarrow>
               Some (msg_failed_prefix @ py_format (str_other env) error_code @ [0x5d, 0x20]
                     @ py_format (str_other env) error_message)))"

text \<open>
  The polling loop \<open>for i in range(max_retries)\<close>, from round \<open>i\<close> on, with the trace
  so far.
\<close>

function poll :: "collaborators \<Rightarrow> nat \<Rightarrow> event list \<Rightarrow> ustring option \<times> event list" where
  "poll env i tr =
     (if i < max_retries_poll then
        (let result = get_task_result (status_response env i);
             tr1 = tr @ [Query i]
         in if truthy result then
              (case dict_get result (ustr ''Data'') (JObj []) of
                 None \<Rightarrow> (None, tr1)
               | Some data \<Rightarrow>
                   (case dict_get data (ustr ''TaskStatus'') JNull of
                      None \<Rightarrow> (None, tr1)
                    | Some task_status \<Rightarrow>
                        if task_status = JStr (ustr ''COMPLETED'') then (on_completed env data, tr1)
                        else if task_status = JStr (ustr ''FAILED'') then (on_failed env data, tr1)
                        else if task_status = JStr (ustr ''INVALID'') then (Some msg_invalid, tr1)
                        else if task_status = JStr (ustr ''ONGOING'')
                        then poll env (Suc i) (tr1 @ [Sleep retry_interval])
                        else poll env (Suc i) (tr1 @ [Sleep retry_interval])))
            else poll env (Suc i) (tr1 @ [Sleep retry_interval]))
      else (Some msg_timeout, tr))"
  by pat_completeness auto
termination
  by (relation "measure (\<lambda>(env, i, tr). max_retries_poll - i)") auto

declare poll.simps [simp del]

definition transcribe_audio :: "collaborators \<Rightarrow> ustring option \<times> event list" where
  "transcribe_audio env =
     (case upload env of
        None \<Rightarrow> (None, [])
      | Some file_url \<Rightarrow>
          if file_url = [] then (None, [])
          else (let task_id = submit_transcription_task (submit_response env)
                in if \<not> truthy task_id then (None, []) else poll env 0 []))"

text \<open>
  The status an answer of the job service reports (\<open>None\<close> when it reports none), the
  terminal states, and the trace of rounds \<open>i\<close> to \<open>n - 1\<close> of a job that stays in
  progress.
\<close>

definition reported_status :: "json option \<Rightarrow> json" where
  "reported_status response =
     (case response of
        None \<Rightarrow> JNull
      | Some r \<Rightarrow>
          (case dict_get r (ustr ''Data'') (JObj []) of
             None \<Rightarrow> JNull
           | Some data \<Rightarrow>
               (case dict_get data (ustr ''TaskStatus'') JNull of
                  None \<Rightarrow> JNull
                | Some st \<Rightarrow> st)))"

definition terminal :: "json \<Rightarrow> bool" where
  "terminal st \<longleftrightarrow>
     st = JStr (ustr ''COMPLETED'') \<or> st = JStr (ustr ''FAILED'') \<or> st = JStr (ustr ''INVALID'')"

definition polling_trace :: "nat \<Rightarrow> nat \<Rightarrow> event list" where
  "polling_trace i n = concat (map (\<lambda>k. [Query k, Sleep 10]) [i..<n])"

text \<open>
  Everything \<open>transcribe_audio\<close> can return: \<open>None\<close>, one of the fixed messages, the
  message of a failed job around the remote code and message, or what
  \<open>download_and_parse_transcription\<close> returns for the result URL.
\<close>

definition transcribe_results :: "collaborators \<Rightarrow> ustring option set" where
  "transcribe_results env =
     {None, Some msg_no_result_url, Some msg_invalid, Some msg_timeout}
     \<union> range (\<lambda>(code, message). Some (msg_failed_prefix @ code @ [0x5d, 0x20] @ message))
     \<union> (\<lambda>url. Some (download_and_parse_transcription (http_get env) url)) ` {url. truthy url}"

text \<open>
  A field of the \<open>Data\<close> of an answer, with the default the code gives it, and whether
  the upload and the submission have succeeded.
\<close>

definition reported :: "json option \<Rightarrow> ustring \<Rightarrow> json \<Rightarrow> json" where
  "reported response k d =
     (case response of
        None \<Rightarrow> d
      | Some r \<Rightarrow>
          (case dict_get r (ustr ''Data'') (JObj []) of
             None \<Rightarrow> d
           | Some data \<Rightarrow> (case dict_get data k d of None \<Rightarrow> d | Some v \<Rightarrow> v)))"

definition job_started :: "collaborators \<Rightarrow> bool" where
  "job_started env \<longleftrightarrow>
     (case upload env of None \<Rightarrow> False | Some file_url \<Rightarrow> file_url \<noteq> [])
     \<and> truthy (submit_transcription_task (submit_response env))"

text \<open>Collaborators for the examples: a job that never ends, and one whose artifact is empty.\<close>

definition submitted :: "json option" where
  "submitted = Some (JObj [(ustr ''Data'', JObj [(ustr ''TaskId'', JStr (ustr ''id''))])])"

definition stalled_job :: collaborators where
  "stalled_job =
     \<lparr>upload = Some (ustr ''u''), submit_response = submitted,
      status_response = (\<lambda>k. if even k then None
         else Some (JObj [(ustr ''Data'', JObj [(ustr ''TaskStatus'', JStr (ustr ''PENDING''))])])),
      http_get = (\<lambda>u. None), str_other = (\<lambda>v. [])\<rparr>"

definition empty_artifact_job :: collaborators where
  "empty_artifact_job =
     \<lparr>upload = Some (ustr ''u''), submit_response = submitted,
      status_response = (\<lambda>k. Some (JObj [(ustr ''Data'',
         JObj [(ustr ''TaskStatus'', JStr (ustr ''COMPLETED'')),
               (ustr ''Result'', JObj [(ustr ''Transcription'', JStr (ustr ''r''))])])])),
      http_get = (\<lambda>u. Some (JObj [])), str_other = (\<lambda>v. [])\<rparr>"

text \<open>An answer with the given status and further fields, and a job with the given answers.\<close>

definition answer :: "string \<Rightarrow> (ustring \<times> json) list \<Rightarrow> json option" where
  "answer st kvs =
     Some (JObj [(ustr ''Data'', JObj ((ustr ''TaskStatus'', JStr (ustr st)) # kvs))])"

definition job :: "(nat \<Rightarrow> json option) \<Rightarrow> collaborators" where
  "job answers =
     \<lparr>upload = Some (ustr ''u''), submit_response = submitted, status_response = answers,
      http_get = (\<lambda>u. None), str_other = (\<lambda>v. [])\<rparr>"

section \<open>The token manager: \<open>FeishuTokenManager\<close>\<close>

text \<open>
  A \<open>threading.Timer\<close>: the time it fires at, and whether it is still waiting, has
  run its function, or was cancelled while waiting.
\<close>

datatype timer_status = Pending | Fired | Cancelled

record timer =
  fire_at :: int
  status :: timer_status

text \<open>
  The manager's fields together with what it sees and does outside: \<open>token\<close>,
  \<open>expire_time\<close>, \<open>refresh_margin\<close> and \<open>refresh_timer\<close> are the fields of the class
  (\<open>JNull\<close> is \<open>None\<close>; the timer handle is an index into \<open>timers\<close>, every timer ever
  started). \<open>locked\<close> says that \<open>_lock\<close>, a \<open>threading.Lock\<close>, is held. \<open>now\<close> is the
  clock in seconds; it moves when the code sleeps and between calls, and a request takes
  no time. \<open>posts\<close> counts the HTTP requests, \<open>fetches\<close> the calls of \<open>_fetch_token\<close>,
  \<open>slept\<close> lists the sleeps.
\<close>

record manager =
  refresh_margin :: int
  token :: json
  expire_time :: "int option"
  locked :: bool
  refresh_timer :: "nat option"
  timers :: "timer list"
  now :: int
  posts :: nat
  fetches :: nat
  slept :: "int list"

text \<open>
  The answer of the remote authority to one request: \<open>requests.post\<close> or
  \<open>raise_for_status\<close> raises a \<open>RequestException\<close>, something else raises, or there is
  a decoded body.
\<close>

datatype http_result = RequestException | OtherException | Body json

text \<open>How a call ends: it returns, it raises, or it waits for the lock for ever.\<close>

datatype 'a outcome = Returns 'a manager | Raises manager | Deadlock manager

definition init_manager :: "int \<Rightarrow> int \<Rightarrow> manager" where
  "init_manager margin t0 =
     \<lparr>refresh_margin = margin, token = JNull, expire_time = None, locked = False,
      refresh_timer = None, timers = [], now = t0, posts = 0, fetches = 0, slept = []\<rparr>"

definition max_retries :: nat where
  "max_retries = 3"

definition retry_delay :: int where
  "retry_delay = 1"

definition sleep :: "int \<Rightarrow> manager \<Rightarrow> manager" where
  "sleep d s = s\<lparr>now := now s + d, slept := slept s @ [d]\<rparr>"

text \<open>\<open>v == 0\<close>: in Python \<open>False == 0\<close> holds too.\<close>

fun py_eq_zero :: "json \<Rightarrow> bool" where
  "py_eq_zero (JNum n) = (n = 0)"
| "py_eq_zero (JBool b) = (\<not> b)"
| "py_eq_zero v = False"

text \<open>\<open>timedelta(seconds=v)\<close> takes a number (a bool is one) and raises on the rest.\<close>

fun seconds_of :: "json \<Rightarrow> int option" where
  "seconds_of (JNum n) = Some n"
| "seconds_of (JBool b) = Some (if b then 1 else 0)"
| "seconds_of v = None"

text \<open>
  The seconds between \<open>datetime.min\<close> and \<open>datetime.max\<close>. Adding a longer lifetime
  to any date raises OverflowError. Nearer the ends of that range the outcome depends on
  the date; the clock of this model is an integer with no ends, so that is left out.
\<close>

definition datetime_span :: int where
  "datetime_span = 315537897599"

text \<open>
  What \<open>_fetch_token\<close> makes of a decoded body at time \<open>t\<close>; \<open>None\<close> is a refusal
  or an exception, which \<open>except Exception\<close> turns into \<open>None\<close>.
\<close>

definition read_body :: "json \<Rightarrow> int \<Rightarrow> (json \<times> int) option" where
  "read_body data t =
     (case dict_get data (ustr ''code'') JNull of
        None \<Rightarrow> None
      | Some code \<Rightarrow>
          if py_eq_zero code then
            (case dict_get data (ustr ''tenant_access_token'') JNull of
               None \<Rightarrow> None
             | Some tok \<Rightarrow>
                 (case dict_get data (ustr ''expire'') (JNum 7200) of
                    None \<Rightarrow> None
                  | Some expire \<Rightarrow>
                      (case seconds_of expire of
                         None \<Rightarrow> None
                       | Some d \<Rightarrow>
                           if - datetime_span \<le> d \<and> d \<le> datetime_span
                           then Some (tok, t + d) else None)))
          else None)"

text \<open>
  The loop \<open>for attempt in range(self.max_retries)\<close> of \<open>_fetch_token\<close>; \<open>remote k\<close>
  answers the \<open>k\<close>-th request ever made. The result is the token with its expiry time, or
  \<open>None\<close>.
\<close>

function fetch_attempts ::
  "(nat \<Rightarrow> http_result) \<Rightarrow> nat \<Rightarrow> manager \<Rightarrow> (json \<times> int) option \<times> manager" where
  "fetch_attempts remote attempt s =
     (if attempt < max_retries then
        (let s1 = s\<lparr>posts := Suc (posts s)\<rparr> in
         case remote (posts s) of
           RequestException \<Rightarrow>
             fetch_attempts remote (Suc attempt)
               (if attempt < max_retries - 1 then sleep (retry_delay * (int attempt + 1)) s1
                else s1)
         | OtherException \<Rightarrow> (None, s1)
         | Body data \<Rightarrow> (read_body data (now s1), s1))
      else (None, s))"
  by pat_completeness auto
termination
  by (relation "measure (\<lambda>(remote, attempt, s). max_retries - attempt)") auto

declare fetch_attempts.simps [simp del]

definition fetch_token :: "(nat \<Rightarrow> http_result) \<Rightarrow> manager \<Rightarrow> (json \<times> int) option \<times> manager" where
  "fetch_token remote s = fetch_attempts remote 0 (s\<lparr>fetches := Suc (fetches s)\<rparr>)"

text \<open>\<open>threading.Timer(delay, self._refresh_token)\<close>, stored in the handle and started.\<close>

definition start_timer :: "int \<Rightarrow> manager \<Rightarrow> manager" where
  "start_timer delay s =
     s\<lparr>timers := timers s @ [\<lparr>fire_at = now s + delay, status = Pending\<rparr>],
       refresh_timer := Some (length (timers s))\<rparr>"

text \<open>\<open>self._token[:20]\<close> in the log line of \<open>_refresh_token\<close> raises unless the token can be sliced.\<close>

fun sliceable :: "json \<Rightarrow> bool" where
  "sliceable (JStr s) = True"
| "sliceable (JArr xs) = True"
| "sliceable v = False"

lemma fetch_attempts_locked: "locked (snd (fetch_attempts remote attempt s)) = locked s"
proof (induction remote attempt s rule: fetch_attempts.induct)
  case (1 remote attempt s)
  let ?s1 = "s\<lparr>posts := Suc (posts s)\<rparr>"
  let ?s2 = "if attempt < max_retries - 1 then sleep (retry_delay * (int attempt + 1)) ?s1 else ?s1"
  have step: "locked (snd (fetch_attempts remote (Suc attempt) ?s2)) = locked ?s2"
    if "attempt < max_retries" "remote (posts s) = RequestException"
    using that 1 [of ?s1] by simp
  have "locked ?s2 = locked s"
    by (simp add: sleep_def)
  with step show ?case
    by (subst fetch_attempts.simps) (auto simp: Let_def split: http_result.split if_splits)
qed

lemma fetch_token_locked: "locked (snd (fetch_token remote s)) = locked s"
  using fetch_attempts_locked [of remote 0 "s\<lparr>fetches := Suc (fetches s)\<rparr>"]
  by (simp add: fetch_token_def)

text \<open>
  \<open>_refresh_token\<close> and \<open>_schedule_refresh\<close> call each other. \<open>with self._lock\<close> takes
  a lock that is not reentrant: a caller that finds it held waits until it is released,
  and when the holder is the caller itself that is for ever.
\<close>

function refresh_token :: "(nat \<Rightarrow> http_result) \<Rightarrow> manager \<Rightarrow> unit outcome"
  and schedule_refresh :: "(nat \<Rightarrow> http_result) \<Rightarrow> manager \<Rightarrow> unit outcome" where
  "refresh_token remote s =
     (if locked s then Deadlock s
      else
        (case fetch_token remote (s\<lparr>locked := True\<rparr>) of
           (Some (tok, exp), s1) \<Rightarrow>
             (if sliceable tok then
                (case schedule_refresh remote (s1\<lparr>token := tok, expire_time := Some exp\<rparr>) of
                   Returns u s2 \<Rightarrow> Returns () (s2\<lparr>locked := False\<rparr>)
                 | Raises s2 \<Rightarrow> Raises (s2\<lparr>locked := False\<rparr>)
                 | Deadlock s2 \<Rightarrow> Deadlock s2)
              else Raises (s1\<lparr>token := tok, expire_time := Some exp, locked := False\<rparr>))
         | (None, s1) \<Rightarrow> Returns () ((start_timer 300 s1)\<lparr>locked := False\<rparr>)))"
| "schedule_refresh remote s =
     (case expire_time s of
        None \<Rightarrow> Returns () s
      | Some e \<Rightarrow>
          (let delay = (e - refresh_margin s) - now s
           in if delay > 0 then Returns () (start_timer delay s)
              else refresh_token remote s))"
  by pat_completeness auto
termination
proof (relation "measure (\<lambda>x. case x of
          Inl (remote, s) \<Rightarrow> (if locked s then 0 else 2)
        | Inr (remote, s) \<Rightarrow> (if locked s then 1 else 3))", goal_cases)
  case 1
  show ?case by simp
next
  case (2 remote s x1 s1 x2 tok exp)
  have "locked (snd (fetch_token remote (s\<lparr>locked := True\<rparr>)))"
    by (simp add: fetch_token_locked)
  with 2(2) [symmetric] have "locked s1" by simp
  with 2 show ?case by simp
next
  case 3
  then show ?case by simp
qed

declare refresh_token.simps [simp del] schedule_refresh.simps [simp del]

definition get_token :: "(nat \<Rightarrow> http_result) \<Rightarrow> manager \<Rightarrow> json outcome" where
  "get_token remote s =
     (if locked s then Deadlock s
      else
        (let s0 = s\<lparr>locked := True\<rparr> in
         if token s0 = JNull \<or>
            (case expire_time s0 of None \<Rightarrow> True | Some e \<Rightarrow> now s0 \<ge> e - refresh_margin s0)
         then
           (case fetch_token remote s0 of
              (Some (tok, exp), s1) \<Rightarrow>
                (case schedule_refresh remote (s1\<lparr>token := tok, expire_time := Some exp\<rparr>) of
                   Returns u s2 \<Rightarrow> Returns (token s2) (s2\<lparr>locked := False\<rparr>)
                 | Raises s2 \<Rightarrow> Raises (s2\<lparr>locked := False\<rparr>)
                 | Deadlock s2 \<Rightarrow> Deadlock s2)
            | (None, s1) \<Rightarrow> Returns JNull (s1\<lparr>locked := False\<rparr>))
         else Returns (token s0) (s0\<lparr>locked := False\<rparr>)))"

text \<open>\<open>Timer.cancel()\<close> stops a timer that is still waiting and does nothing to another.\<close>

definition cancel :: "nat \<Rightarrow> timer list \<Rightarrow> timer list" where
  "cancel h ts =
     (if h < length ts \<and> status (ts ! h) = Pending then ts[h := (ts ! h)\<lparr>status := Cancelled\<rparr>]
      else ts)"



text \<open>Time passing between two calls.\<close>

definition elapse :: "int \<Rightarrow> manager \<Rightarrow> manager" where
  "elapse d s = s\<lparr>now := now s + d\<rparr>"


text \<open>The state a call ends in.\<close>

fun final :: "'a outcome \<Rightarrow> manager" where
  "final (Returns v s) = s"
| "final (Raises s) = s"
| "final (Deadlock s) = s"

text \<open>
  The delays before the second and later of \<open>n\<close> attempts as the specification words
  them (one second, then doubling), and the manager after a fetch of \<open>n\<close> requests.
\<close>

definition backoff :: "nat \<Rightarrow> int list" where
  "backoff n = map (\<lambda>k. 2 ^ k) [0..<n - 1]"

definition fetched :: "nat \<Rightarrow> manager \<Rightarrow> manager" where
  "fetched n s =
     s\<lparr>fetches := Suc (fetches s), posts := posts s + n,
       now := now s + sum_list (backoff n), slept := slept s @ backoff n\<rparr>"

text \<open>
  The number of requests of a fetch whose first request is the \<open>p\<close>-th: a request that
  raises a \<open>RequestException\<close> is followed by another, up to three in all. And whether
  the last of them brings a body that \<open>_fetch_token\<close> accepts.
\<close>

definition attempts :: "(nat \<Rightarrow> http_result) \<Rightarrow> nat \<Rightarrow> nat" where
  "attempts remote p =
     (if remote p \<noteq> RequestException then 1
      else if remote (p + 1) \<noteq> RequestException then 2
      else 3)"

definition last_answer_good :: "(nat \<Rightarrow> http_result) \<Rightarrow> manager \<Rightarrow> bool" where
  "last_answer_good remote s =
     (case remote (posts s + attempts remote (posts s) - 1) of
        Body data \<Rightarrow>
          read_body data (now s + sum_list (backoff (attempts remote (posts s)))) \<noteq> None
      | RequestException \<Rightarrow> False
      | OtherException \<Rightarrow> False)"

text \<open>
  A credential is cached and its expiry lies more than the renewal margin in the future.
\<close>

definition fresh :: "manager \<Rightarrow> bool" where
  "fresh s \<longleftrightarrow>
     token s \<noteq> JNull \<and>
     (case expire_time s of None \<Rightarrow> False | Some e \<Rightarrow> e - now s > refresh_margin s)"

text \<open>
  Answers of the remote authority for the examples: a token \<open>t\<close> with a lifetime, and an
  error code.
\<close>

definition ok_body :: "int \<Rightarrow> http_result" where
  "ok_body e =
     Body (JObj [(ustr ''code'', JNum 0), (ustr ''tenant_access_token'', JStr (ustr ''t'')),
                 (ustr ''expire'', JNum e)])"

definition err_body :: http_result where
  "err_body = Body (JObj [(ustr ''code'', JNum 99), (ustr ''msg'', JStr (ustr ''bad''))])"

text \<open>The manager after a first \<open>get_token()\<close> at time 0 that was answered \<open>ok_body 7200\<close>.\<close>

definition cached_manager :: manager where
  "cached_manager =
     \<lparr>refresh_margin = 300, token = JStr (ustr ''t''), expire_time = Some 7200, locked = False,
      refresh_timer = Some 0, timers = [\<lparr>fire_at = 6900, status = Pending\<rparr>], now = 0,
      posts = 1, fetches = 1, slept = []\<rparr>"




section \<open>Properties of the parser\<close>

lemma py_join_empty_sep: "py_join [] ss = concat ss"
  by (induction "[] :: ustring" ss rule: py_join.induct) simp_all

lemma as_strs_JStr: "as_strs (map JStr ss) = Some ss"
  by (induction ss) simp_all

lemma those_word_texts:
  "those (map (\<lambda>word. dict_get word (ustr ''Text'') (JStr [])) (map word_entry ws))
     = Some (map JStr ws)"
  by (induction ws) (simp_all add: word_entry_def)

lemma collect_paragraphs_step:
  "collect_paragraphs (paragraph_entry ws # rest) acc =
     (if strip (concat ws) \<noteq> [] then collect_paragraphs rest (acc @ [strip (concat ws)])
      else collect_paragraphs rest acc)"
proof (cases "ws = []")
  case True
  have "strip (concat ([] :: ustring list)) = []" by (simp add: strip_def)
  with True show ?thesis by (simp add: paragraph_entry_def)
next
  case False
  have "those (map (\<lambda>word. dict_get word (ustr ''Text'') (JStr [])) (map word_entry ws))
          = Some (map JStr ws)"
    by (rule those_word_texts)
  with False show ?thesis
    by (simp add: paragraph_entry_def as_strs_JStr py_join_empty_sep Let_def del: map_map)
qed

lemma collect_paragraphs_entries:
  "collect_paragraphs (map paragraph_entry ps) acc
     = Some (acc @ filter (\<lambda>p. p \<noteq> []) (map (\<lambda>ws. strip (concat ws)) ps))"
proof (induction ps arbitrary: acc)
  case Nil
  show ?case by simp
next
  case (Cons ws ps)
  then show ?case by (simp add: collect_paragraphs_step del: collect_paragraphs.simps)
qed

lemma parse_artifact:
  "download_and_parse_transcription (\<lambda>u. Some (artifact ps)) url
     = py_join [0xA] (filter (\<lambda>p. p \<noteq> []) (map (\<lambda>ws. strip (concat ws)) ps))"
  by (simp add: download_and_parse_transcription_def parse_document_def artifact_def
      collect_paragraphs_entries)

text \<open>
  C8 (amended). For every artifact built of paragraphs of word fragments, the parse is the
  fragments of each paragraph concatenated with no separator, each paragraph trimmed, the
  paragraphs that are empty after trimming dropped, and the rest joined by one newline.
\<close>

theorem parse_flattens_paragraphs:
  "download_and_parse_transcription (\<lambda>u. Some (artifact ps)) url = flatten_paragraphs ps"
  by (simp add: parse_artifact flatten_paragraphs_def)

text \<open>
  C8, the example as the claim states it: the second paragraph is trimmed, so the parse of
  \<open>[["He","llo"],[" ","World"]]\<close> is \<open>"Hello\nWorld"\<close> and not \<open>"Hello\n World"\<close>.
\<close>

theorem parse_example_counterexample:
  "download_and_parse_transcription
      (\<lambda>u. Some (artifact [[ustr ''He'', ustr ''llo''], [ustr '' '', ustr ''World'']]))
      (JStr (ustr ''u''))
     \<noteq> ustr ''Hello'' @ [0xA] @ ustr '' World''
   \<and> download_and_parse_transcription
      (\<lambda>u. Some (artifact [[ustr ''He'', ustr ''llo''], [ustr '' '', ustr ''World'']]))
      (JStr (ustr ''u''))
     = ustr ''Hello'' @ [0xA] @ ustr ''World''"
  by (simp add: download_and_parse_transcription_def parse_document_def artifact_def
      paragraph_entry_def word_entry_def ustr_def strip_def isspace_def Let_def)


section \<open>Properties of the polling loop\<close>

lemma dict_get_None: "dict_get v k d = None \<longleftrightarrow> \<not> is_dict v"
  by (cases v) simp_all

lemma dict_get_Some: "is_dict v \<Longrightarrow> \<exists>x. dict_get v k d = Some x"
  by (cases v) simp_all

lemma get_task_result_truthy:
  assumes "truthy (get_task_result resp)"
  shows "\<exists>data. dict_get (get_task_result resp) (ustr ''Data'') (JObj []) = Some data \<and>
           dict_get data (ustr ''TaskStatus'') JNull = Some (reported_status resp)"
proof -
  from assms obtain r where r: "resp = Some r"
    by (cases resp) (simp_all add: get_task_result_def)
  from assms r obtain data where data: "dict_get r (ustr ''Data'') (JObj []) = Some data"
    by (cases "dict_get r (ustr ''Data'') (JObj [])") (simp_all add: get_task_result_def)
  from assms r data have "is_dict data"
    by (cases "is_dict data") (simp_all add: get_task_result_def dict_get_None [THEN iffD2])
  then obtain st where st: "dict_get data (ustr ''TaskStatus'') JNull = Some st"
    using dict_get_Some by blast
  from \<open>is_dict data\<close> obtain u where "dict_get data (ustr ''TaskStatus'') (JStr (ustr ''Unknown'')) = Some u"
    using dict_get_Some by blast
  with r data have "get_task_result resp = r"
    by (simp add: get_task_result_def)
  moreover from r data st have "reported_status resp = st"
    by (simp add: reported_status_def)
  ultimately show ?thesis using data st by simp
qed

lemma poll_step:
  assumes "i < max_retries_poll" "\<not> terminal (reported_status (status_response env i))"
  shows "poll env i tr = poll env (Suc i) (tr @ [Query i, Sleep 10])"
proof (cases "truthy (get_task_result (status_response env i))")
  case False
  with assms(1) show ?thesis
    by (subst poll.simps) (simp add: retry_interval_def)
next
  case True
  from get_task_result_truthy [OF True] obtain data where
    "dict_get (get_task_result (status_response env i)) (ustr ''Data'') (JObj []) = Some data"
    "dict_get data (ustr ''TaskStatus'') JNull = Some (reported_status (status_response env i))"
    by blast
  with True assms show ?thesis
    by (subst poll.simps) (simp add: retry_interval_def terminal_def Let_def)
qed

lemma poll_timeout:
  assumes "\<forall>j. i \<le> j \<and> j < max_retries_poll \<longrightarrow> \<not> terminal (reported_status (status_response env j))"
    and "i \<le> max_retries_poll"
  shows "poll env i tr = (Some msg_timeout, tr @ polling_trace i max_retries_poll)"
  using assms
proof (induction "max_retries_poll - i" arbitrary: i tr)
  case 0
  then show ?case by (subst poll.simps) (simp add: polling_trace_def)
next
  case (Suc n)
  then have lt: "i < max_retries_poll" by simp
  with Suc.prems have "\<not> terminal (reported_status (status_response env i))" by simp
  with lt have "poll env i tr = poll env (Suc i) (tr @ [Query i, Sleep 10])"
    by (rule poll_step)
  also have "\<dots> = (Some msg_timeout, (tr @ [Query i, Sleep 10]) @ polling_trace (Suc i) max_retries_poll)"
    using Suc.hyps Suc.prems lt by (intro Suc.hyps(1)) auto
  also have "(tr @ [Query i, Sleep 10]) @ polling_trace (Suc i) max_retries_poll
      = tr @ polling_trace i max_retries_poll"
    using lt by (simp add: polling_trace_def upt_conv_Cons)
  finally show ?case .
qed


text \<open>
  C7. When the upload and the submission succeed and none of the 30 status queries
  reports a terminal state (\<open>COMPLETED\<close>, \<open>FAILED\<close>, \<open>INVALID\<close>), whatever else they
  report and whether or not they fail, \<open>transcribe_audio\<close> makes exactly the queries
  0 to 29, sleeps 10 seconds after each, and returns the timeout message.
\<close>

theorem transcribe_times_out:
  assumes "upload env = Some file_url" and "file_url \<noteq> []"
    and "truthy (submit_transcription_task (submit_response env))"
    and "\<forall>i<30. \<not> terminal (reported_status (status_response env i))"
  shows "transcribe_audio env
           = (Some msg_timeout, concat (map (\<lambda>k. [Query k, Sleep 10]) [0..<30]))"
proof -
  have "poll env 0 [] = (Some msg_timeout, [] @ polling_trace 0 max_retries_poll)"
    using assms(4) by (intro poll_timeout) (simp_all add: max_retries_poll_def)
  with assms(1-3) show ?thesis
    by (simp add: transcribe_audio_def polling_trace_def max_retries_poll_def)
qed

lemma stalled_status:
  "\<not> terminal (reported_status (status_response stalled_job i))"
  by (simp add: stalled_job_def reported_status_def terminal_def ustr_def)

text \<open>
  C7, at a job whose even queries fail and whose odd queries report \<open>PENDING\<close>.
\<close>

theorem transcribe_times_out_witness:
  "transcribe_audio stalled_job
     = (Some msg_timeout, concat (map (\<lambda>k. [Query k, Sleep 10]) [0..<30]))"
proof -
  have "upload stalled_job = Some (ustr ''u'')" "ustr ''u'' \<noteq> []"
    by (simp_all add: stalled_job_def ustr_def)
  moreover have "truthy (submit_transcription_task (submit_response stalled_job))"
    by (simp add: stalled_job_def submitted_def submit_transcription_task_def ustr_def)
  moreover have "\<forall>i<30. \<not> terminal (reported_status (status_response stalled_job i))"
    by (simp add: stalled_status)
  ultimately show ?thesis by (rule transcribe_times_out)
qed

section \<open>What \<open>transcribe_audio\<close> returns\<close>

lemma empty_job_answer:
  "get_task_result (status_response empty_artifact_job 0) =
     JObj [(ustr ''Data'',
         JObj [(ustr ''TaskStatus'', JStr (ustr ''COMPLETED'')),
               (ustr ''Result'', JObj [(ustr ''Transcription'', JStr (ustr ''r''))])])]"
  by (simp add: empty_artifact_job_def get_task_result_def)

text \<open>
  C10 as stated fails: a job that completes with an artifact holding no paragraph makes
  \<open>transcribe_audio\<close> return the empty string, which is neither \<open>None\<close> nor non-empty.
\<close>

theorem transcribe_empty_counterexample:
  "fst (transcribe_audio empty_artifact_job) = Some []"
proof -
  have "http_get empty_artifact_job = (\<lambda>u. Some (JObj []))"
    by (simp add: empty_artifact_job_def)
  then have "poll empty_artifact_job 0 [] = (Some [], [Query 0])"
    by (subst poll.simps)
       (simp add: empty_job_answer max_retries_poll_def on_completed_def
          download_and_parse_transcription_def parse_document_def ustr_def)
  moreover have "upload empty_artifact_job = Some (ustr ''u'')" "ustr ''u'' \<noteq> []"
      "truthy (submit_transcription_task (submit_response empty_artifact_job))"
    by (simp_all add: empty_artifact_job_def submitted_def submit_transcription_task_def ustr_def)
  ultimately show ?thesis
    by (simp add: transcribe_audio_def)
qed


lemma in_results_download:
  "truthy url \<Longrightarrow> Some (download_and_parse_transcription (http_get env) url) \<in> transcribe_results env"
  by (simp add: transcribe_results_def)

lemma in_results_failed:
  "Some (msg_failed_prefix @ code @ [0x5d, 0x20] @ message) \<in> transcribe_results env"
  unfolding transcribe_results_def by (intro UnI1 UnI2 range_eqI [of _ _ "(code, message)"]) simp

lemma in_results_failed_Cons:
  "Some (msg_failed_prefix @ code @ 0x5d # 0x20 # message) \<in> transcribe_results env"
  using in_results_failed [of code message env] by simp

lemma in_results_fixed:
  "None \<in> transcribe_results env" "Some msg_no_result_url \<in> transcribe_results env"
  "Some msg_invalid \<in> transcribe_results env" "Some msg_timeout \<in> transcribe_results env"
  by (simp_all add: transcribe_results_def)

lemma on_completed_result: "on_completed env data \<in> transcribe_results env"
  by (simp add: on_completed_def in_results_download in_results_fixed split: option.split)

lemma on_failed_result: "on_failed env data \<in> transcribe_results env"
  by (simp add: on_failed_def in_results_failed_Cons in_results_fixed split: option.split)

lemma poll_cases:
  "fst (poll env i tr) \<in> transcribe_results env
   \<or> (i < max_retries_poll \<and> poll env i tr = poll env (Suc i) (tr @ [Query i, Sleep 10]))"
  by (simp only: poll.simps [of env i tr])
     (simp add: Let_def retry_interval_def on_completed_result on_failed_result in_results_fixed
        split: option.split)


lemma poll_result: "fst (poll env i tr) \<in> transcribe_results env"
proof (induction "max_retries_poll - i" arbitrary: i tr)
  case 0
  with poll_cases [of env i tr] show ?case by simp
next
  case (Suc n)
  from poll_cases [of env i tr] show ?case
  proof
    assume "i < max_retries_poll \<and> poll env i tr = poll env (Suc i) (tr @ [Query i, Sleep 10])"
    moreover have "fst (poll env (Suc i) (tr @ [Query i, Sleep 10])) \<in> transcribe_results env"
      using Suc.hyps(2) by (intro Suc.hyps(1)) simp
    ultimately show ?thesis by simp
  qed
qed

lemma strip_msg_timeout: "strip msg_timeout = msg_timeout"
  by (simp add: strip_def msg_timeout_def isspace_def)

lemma poll_prefix:
  assumes "i \<le> max_retries_poll"
    and "\<forall>j<i. \<not> terminal (reported_status (status_response env j))"
  shows "poll env 0 [] = poll env i (polling_trace 0 i)"
  using assms
proof (induction i)
  case 0
  show ?case by (simp add: polling_trace_def)
next
  case (Suc i)
  then have "poll env 0 [] = poll env i (polling_trace 0 i)" by simp
  also have "\<dots> = poll env (Suc i) (polling_trace 0 i @ [Query i, Sleep 10])"
    using Suc.prems by (intro poll_step) simp_all
  also have "polling_trace 0 i @ [Query i, Sleep 10] = polling_trace 0 (Suc i)"
    by (simp add: polling_trace_def)
  finally show ?case .
qed

lemma terminal_answer:
  assumes "terminal (reported_status resp)"
  obtains r data where "resp = Some r" "truthy r" "get_task_result resp = r"
    "dict_get r (ustr ''Data'') (JObj []) = Some data" "is_dict data"
    "dict_get data (ustr ''TaskStatus'') JNull = Some (reported_status resp)"
    "\<forall>k d. reported resp k d = (case dict_get data k d of None \<Rightarrow> d | Some v \<Rightarrow> v)"
proof -
  from assms obtain r where r: "resp = Some r"
    by (cases resp) (simp_all add: reported_status_def terminal_def)
  from assms r obtain data where data: "dict_get r (ustr ''Data'') (JObj []) = Some data"
    by (cases "dict_get r (ustr ''Data'') (JObj [])")
       (simp_all add: reported_status_def terminal_def)
  from assms r data obtain st where st: "dict_get data (ustr ''TaskStatus'') JNull = Some st"
    by (cases "dict_get data (ustr ''TaskStatus'') JNull")
       (simp_all add: reported_status_def terminal_def)
  with r data have rs: "reported_status resp = st" by (simp add: reported_status_def)
  from st have d: "is_dict data" using dict_get_None [of data "ustr ''TaskStatus''" JNull] by simp
  then obtain u where "dict_get data (ustr ''TaskStatus'') (JStr (ustr ''Unknown'')) = Some u"
    using dict_get_Some by blast
  with r data have g: "get_task_result resp = r" by (simp add: get_task_result_def)
  have "truthy r"
  proof (cases r)
    case (JObj kvs)
    show ?thesis
    proof (cases kvs)
      case Nil
      with JObj data st rs assms show ?thesis by (auto simp: terminal_def)
    qed (simp add: JObj)
  qed (use data in simp_all)
  moreover have "\<forall>k d. reported resp k d = (case dict_get data k d of None \<Rightarrow> d | Some v \<Rightarrow> v)"
    using r data by (simp add: reported_def)
  ultimately show ?thesis using that r data d st rs g by blast
qed


lemma poll_failed:
  assumes "i < max_retries_poll"
    and "reported_status (status_response env i) = JStr (ustr ''FAILED'')"
  shows "poll env i tr =
     (Some (msg_failed_prefix
            @ py_format (str_other env) (reported (status_response env i) (ustr ''ErrorCode'') (JStr []))
            @ [0x5d, 0x20]
            @ py_format (str_other env)
                (reported (status_response env i) (ustr ''ErrorMessage'') (JStr msg_unknown_error))),
      tr @ [Query i])"
proof -
  from assms(2) have "terminal (reported_status (status_response env i))"
    by (simp add: terminal_def)
  then obtain r data where a: "status_response env i = Some r" "truthy r"
    "get_task_result (status_response env i) = r"
    "dict_get r (ustr ''Data'') (JObj []) = Some data" "is_dict data"
    "dict_get data (ustr ''TaskStatus'') JNull = Some (reported_status (status_response env i))"
    and rep': "\<forall>k d. reported (status_response env i) k d
        = (case dict_get data k d of None \<Rightarrow> d | Some v \<Rightarrow> v)"
    by (rule terminal_answer)
  note rep = rep' [rule_format]
  have "on_failed env data =
     Some (msg_failed_prefix
            @ py_format (str_other env) (reported (status_response env i) (ustr ''ErrorCode'') (JStr []))
            @ [0x5d, 0x20]
            @ py_format (str_other env)
                (reported (status_response env i) (ustr ''ErrorMessage'') (JStr msg_unknown_error)))"
  proof -
    from a(5) obtain c m where "dict_get data (ustr ''ErrorCode'') (JStr []) = Some c"
      "dict_get data (ustr ''ErrorMessage'') (JStr msg_unknown_error) = Some m"
      using dict_get_Some by blast
    then show ?thesis by (simp add: on_failed_def rep)
  qed
  with assms a show ?thesis
    by (subst poll.simps) (simp add: Let_def ustr_def)
qed

lemma poll_invalid:
  assumes "i < max_retries_poll"
    and "reported_status (status_response env i) = JStr (ustr ''INVALID'')"
  shows "poll env i tr = (Some msg_invalid, tr @ [Query i])"
proof -
  from assms(2) have "terminal (reported_status (status_response env i))"
    by (simp add: terminal_def)
  then obtain r data where a: "status_response env i = Some r" "truthy r"
    "get_task_result (status_response env i) = r"
    "dict_get r (ustr ''Data'') (JObj []) = Some data" "is_dict data"
    "dict_get data (ustr ''TaskStatus'') JNull = Some (reported_status (status_response env i))"
    and rep': "\<forall>k d. reported (status_response env i) k d
        = (case dict_get data k d of None \<Rightarrow> d | Some v \<Rightarrow> v)"
    by (rule terminal_answer)
  note rep = rep' [rule_format]
  from assms a show ?thesis
    by (subst poll.simps) (simp add: Let_def ustr_def)
qed

lemma poll_completed:
  assumes "i < max_retries_poll"
    and "reported_status (status_response env i) = JStr (ustr ''COMPLETED'')"
  shows "poll env i tr =
     (case dict_get (reported (status_response env i) (ustr ''Result'') (JObj []))
             (ustr ''Transcription'') JNull of
        None \<Rightarrow> None
      | Some url \<Rightarrow>
          if truthy url then Some (download_and_parse_transcription (http_get env) url)
          else Some msg_no_result_url,
      tr @ [Query i])"
proof -
  from assms(2) have "terminal (reported_status (status_response env i))"
    by (simp add: terminal_def)
  then obtain r data where a: "status_response env i = Some r" "truthy r"
    "get_task_result (status_response env i) = r"
    "dict_get r (ustr ''Data'') (JObj []) = Some data" "is_dict data"
    "dict_get data (ustr ''TaskStatus'') JNull = Some (reported_status (status_response env i))"
    and rep': "\<forall>k d. reported (status_response env i) k d
        = (case dict_get data k d of None \<Rightarrow> d | Some v \<Rightarrow> v)"
    by (rule terminal_answer)
  note rep = rep' [rule_format]
  have "on_completed env data =
     (case dict_get (reported (status_response env i) (ustr ''Result'') (JObj []))
             (ustr ''Transcription'') JNull of
        None \<Rightarrow> None
      | Some url \<Rightarrow>
          if truthy url then Some (download_and_parse_transcription (http_get env) url)
          else Some msg_no_result_url)"
  proof -
    from a(5) obtain res where "dict_get data (ustr ''Result'') (JObj []) = Some res"
      using dict_get_Some by blast
    then show ?thesis by (simp add: on_completed_def rep)
  qed
  with assms a show ?thesis
    by (subst poll.simps) (simp add: Let_def ustr_def)
qed


lemma transcribe_not_started: "\<not> job_started env \<Longrightarrow> transcribe_audio env = (None, [])"
  by (auto simp: job_started_def transcribe_audio_def Let_def split: option.splits)

lemma transcribe_started: "job_started env \<Longrightarrow> transcribe_audio env = poll env 0 []"
  by (auto simp: job_started_def transcribe_audio_def Let_def split: option.splits)

lemma transcribe_at_terminal:
  assumes "job_started env" "i < 30"
    "\<forall>j<i. \<not> terminal (reported_status (status_response env j))"
  shows "transcribe_audio env = poll env i (polling_trace 0 i)" "i < max_retries_poll"
  using assms poll_prefix [of i env] by (simp_all add: transcribe_started max_retries_poll_def)

lemma download_failed:
  "http_get env url = None \<or> (\<exists>data. http_get env url = Some data \<and> parse_document data = None)
   \<Longrightarrow> download_and_parse_transcription (http_get env) url = parse_failed"
  by (auto simp: download_and_parse_transcription_def)

text \<open>
  C10 (amended). \<open>transcribe_audio\<close> raises nothing; what it returns is this. When the
  upload or the submission fails it returns \<open>None\<close>. When the job is started and query
  \<open>i\<close> is the first to report a terminal state: for \<open>FAILED\<close> the string built around
  the remote code and message, for \<open>INVALID\<close> a fixed string, for \<open>COMPLETED\<close> a fixed
  string when there is no result URL, what \<open>download_and_parse_transcription\<close> returns
  when there is one, and \<open>None\<close> when reading the answer raises. When no query reports a
  terminal state it returns the timeout string. A failed download or parse gives the
  fixed string \<open>parse_failed\<close>. It returns nothing else, all these strings are
  non-empty, and a transcript can be the very text of a failure message.
\<close>

theorem transcribe_result_channel:
  "(\<not> job_started env \<longrightarrow> transcribe_audio env = (None, []))
   \<and> (job_started env \<and> i < 30
        \<and> (\<forall>j<i. \<not> terminal (reported_status (status_response env j))) \<longrightarrow>
        (reported_status (status_response env i) = JStr (ustr ''FAILED'') \<longrightarrow>
           transcribe_audio env =
             (Some (msg_failed_prefix
                @ py_format (str_other env)
                    (reported (status_response env i) (ustr ''ErrorCode'') (JStr []))
                @ [0x5d, 0x20]
                @ py_format (str_other env)
                    (reported (status_response env i) (ustr ''ErrorMessage'')
                       (JStr msg_unknown_error))),
              polling_trace 0 i @ [Query i]))
      \<and> (reported_status (status_response env i) = JStr (ustr ''INVALID'') \<longrightarrow>
           transcribe_audio env = (Some msg_invalid, polling_trace 0 i @ [Query i]))
      \<and> (reported_status (status_response env i) = JStr (ustr ''COMPLETED'') \<longrightarrow>
           transcribe_audio env =
             (case dict_get (reported (status_response env i) (ustr ''Result'') (JObj []))
                     (ustr ''Transcription'') JNull of
                None \<Rightarrow> None
              | Some url \<Rightarrow>
                  if truthy url then Some (download_and_parse_transcription (http_get env) url)
                  else Some msg_no_result_url,
              polling_trace 0 i @ [Query i])))
   \<and> (job_started env \<and> (\<forall>j<30. \<not> terminal (reported_status (status_response env j))) \<longrightarrow>
        transcribe_audio env = (Some msg_timeout, polling_trace 0 30))
   \<and> (http_get env url = None
        \<or> (\<exists>data. http_get env url = Some data \<and> parse_document data = None) \<longrightarrow>
        download_and_parse_transcription (http_get env) url = parse_failed)
   \<and> fst (transcribe_audio env) \<in> transcribe_results env
   \<and> msg_no_result_url \<noteq> [] \<and> msg_invalid \<noteq> [] \<and> msg_timeout \<noteq> [] \<and> parse_failed \<noteq> []
   \<and> msg_failed_prefix @ code @ [0x5d, 0x20] @ message \<noteq> []
   \<and> download_and_parse_transcription (\<lambda>u. Some (artifact [[msg_timeout]])) url = msg_timeout"
proof (intro conjI impI; (elim conjE)?)
  show "fst (transcribe_audio env) \<in> transcribe_results env"
    by (simp add: transcribe_audio_def in_results_fixed poll_result Let_def split: option.split)
  show "msg_no_result_url \<noteq> []" "msg_invalid \<noteq> []" "msg_timeout \<noteq> []" "parse_failed \<noteq> []"
    "msg_failed_prefix @ code @ [0x5d, 0x20] @ message \<noteq> []"
    by (simp_all add: msg_no_result_url_def msg_invalid_def msg_timeout_def parse_failed_def
        msg_failed_prefix_def)
  show "download_and_parse_transcription (\<lambda>u. Some (artifact [[msg_timeout]])) url = msg_timeout"
    by (simp add: parse_artifact strip_msg_timeout)
next
  assume "\<not> job_started env"
  then show "transcribe_audio env = (None, [])" by (rule transcribe_not_started)
next
  assume "http_get env url = None
        \<or> (\<exists>data. http_get env url = Some data \<and> parse_document data = None)"
  then show "download_and_parse_transcription (http_get env) url = parse_failed"
    by (rule download_failed)
next
  assume "job_started env" "\<forall>j<30. \<not> terminal (reported_status (status_response env j))"
  then show "transcribe_audio env = (Some msg_timeout, polling_trace 0 30)"
    using poll_timeout [of 0 env "[]"]
    by (simp add: transcribe_started max_retries_poll_def)
next
  assume a: "job_started env" "i < 30"
    "\<forall>j<i. \<not> terminal (reported_status (status_response env j))"
  note t = transcribe_at_terminal [OF a]
  {
    assume "reported_status (status_response env i) = JStr (ustr ''FAILED'')"
    with t show "transcribe_audio env =
             (Some (msg_failed_prefix
                @ py_format (str_other env)
                    (reported (status_response env i) (ustr ''ErrorCode'') (JStr []))
                @ [0x5d, 0x20]
                @ py_format (str_other env)
                    (reported (status_response env i) (ustr ''ErrorMessage'')
                       (JStr msg_unknown_error))),
              polling_trace 0 i @ [Query i])"
      by (simp add: poll_failed)
  next
    assume "reported_status (status_response env i) = JStr (ustr ''INVALID'')"
    with t show "transcribe_audio env = (Some msg_invalid, polling_trace 0 i @ [Query i])"
      by (simp add: poll_invalid)
  next
    assume "reported_status (status_response env i) = JStr (ustr ''COMPLETED'')"
    with t show "transcribe_audio env =
             (case dict_get (reported (status_response env i) (ustr ''Result'') (JObj []))
                     (ustr ''Transcription'') JNull of
                None \<Rightarrow> None
              | Some url \<Rightarrow>
                  if truthy url then Some (download_and_parse_transcription (http_get env) url)
                  else Some msg_no_result_url,
              polling_trace 0 i @ [Query i])"
      by (simp add: poll_completed)
  }
qed


lemma job_started_job: "job_started (job answers)"
  by (simp add: job_started_def job_def submitted_def submit_transcription_task_def ustr_def)

lemma job_fields:
  "status_response (job answers) = answers" "http_get (job answers) = (\<lambda>u. None)"
  "str_other (job answers) = (\<lambda>v. [])"
  by (simp_all add: job_def)

lemma reported_status_answer: "reported_status (answer st kvs) = JStr (ustr st)"
  by (simp add: reported_status_def answer_def)

lemma reported_answer:
  "reported (answer st kvs) k d =
     (case map_of ((ustr ''TaskStatus'', JStr (ustr st)) # kvs) k of None \<Rightarrow> d | Some v \<Rightarrow> v)"
  by (simp add: reported_def answer_def)

text \<open>
  C10 (amended), at a failed job with code \<open>X\<close> and message \<open>Y\<close>, a job found invalid at
  the third query, a job completed without a result URL, one whose download fails, and
  a failed upload.
\<close>

theorem transcribe_result_channel_witness:
  "transcribe_audio (job (\<lambda>k. answer ''FAILED''
        [(ustr ''ErrorCode'', JStr (ustr ''X'')), (ustr ''ErrorMessage'', JStr (ustr ''Y''))]))
     = (Some (msg_failed_prefix @ ustr ''X'' @ [0x5d, 0x20] @ ustr ''Y''), [Query 0])
   \<and> transcribe_audio (job (\<lambda>k. if k < 2 then answer ''ONGOING'' [] else answer ''INVALID'' []))
     = (Some msg_invalid, [Query 0, Sleep 10, Query 1, Sleep 10, Query 2])
   \<and> transcribe_audio (job (\<lambda>k. answer ''COMPLETED'' []))
     = (Some msg_no_result_url, [Query 0])
   \<and> transcribe_audio (job (\<lambda>k. answer ''COMPLETED''
        [(ustr ''Result'', JObj [(ustr ''Transcription'', JStr (ustr ''r''))])]))
     = (Some parse_failed, [Query 0])
   \<and> transcribe_audio ((job (\<lambda>k. None))\<lparr>upload := None\<rparr>) = (None, [])"
proof -
  have 1: "transcribe_audio (job (\<lambda>k. answer ''FAILED''
        [(ustr ''ErrorCode'', JStr (ustr ''X'')), (ustr ''ErrorMessage'', JStr (ustr ''Y''))]))
     = (Some (msg_failed_prefix @ ustr ''X'' @ [0x5d, 0x20] @ ustr ''Y''), [Query 0])"
    using transcribe_result_channel [of "job (\<lambda>k. answer ''FAILED''
        [(ustr ''ErrorCode'', JStr (ustr ''X'')), (ustr ''ErrorMessage'', JStr (ustr ''Y''))])" 0]
    by (simp add: job_started_job job_fields reported_status_answer reported_answer
        polling_trace_def py_format_def ustr_def)
  have 2: "transcribe_audio (job (\<lambda>k. if k < 2 then answer ''ONGOING'' [] else answer ''INVALID'' []))
     = (Some msg_invalid, [Query 0, Sleep 10, Query 1, Sleep 10, Query 2])"
    using transcribe_result_channel
      [of "job (\<lambda>k. if k < 2 then answer ''ONGOING'' [] else answer ''INVALID'' [])" 2]
    by (simp add: job_started_job job_fields reported_status_answer terminal_def
        polling_trace_def ustr_def upt_rec numeral_2_eq_2)
  have 3: "transcribe_audio (job (\<lambda>k. answer ''COMPLETED'' [])) = (Some msg_no_result_url, [Query 0])"
    using transcribe_result_channel [of "job (\<lambda>k. answer ''COMPLETED'' [])" 0]
    by (simp add: job_started_job job_fields reported_status_answer reported_answer
        polling_trace_def ustr_def)
  have 4: "transcribe_audio (job (\<lambda>k. answer ''COMPLETED''
        [(ustr ''Result'', JObj [(ustr ''Transcription'', JStr (ustr ''r''))])]))
     = (Some parse_failed, [Query 0])"
    using transcribe_result_channel [of "job (\<lambda>k. answer ''COMPLETED''
        [(ustr ''Result'', JObj [(ustr ''Transcription'', JStr (ustr ''r''))])])" 0
        "JStr (ustr ''r'')"]
    by (simp add: job_started_job job_fields reported_status_answer reported_answer
        polling_trace_def ustr_def)
  have 5: "transcribe_audio ((job (\<lambda>k. None))\<lparr>upload := None\<rparr>) = (None, [])"
    using transcribe_result_channel [of "(job (\<lambda>k. None))\<lparr>upload := None\<rparr>"]
    by (simp add: job_started_def)
  from 1 2 3 4 5 show ?thesis by simp
qed

section \<open>Properties of the token manager\<close>

lemma backoff_simps: "backoff (Suc 0) = []" "backoff 2 = [1]" "backoff 3 = [1, 2]"
  by (simp_all add: backoff_def upt_rec numeral_2_eq_2 numeral_3_eq_3)

lemma fetch_attempts_3: "fetch_attempts remote (Suc (Suc (Suc 0))) s = (None, s)"
  by (subst fetch_attempts.simps) (simp add: max_retries_def)

lemma fetch_attempts_2:
  "fetch_attempts remote (Suc (Suc 0)) s =
     (case remote (posts s) of
        RequestException \<Rightarrow> (None, s\<lparr>posts := Suc (posts s)\<rparr>)
      | OtherException \<Rightarrow> (None, s\<lparr>posts := Suc (posts s)\<rparr>)
      | Body data \<Rightarrow> (read_body data (now s), s\<lparr>posts := Suc (posts s)\<rparr>))"
  by (subst fetch_attempts.simps)
     (simp add: max_retries_def fetch_attempts_3 split: http_result.split)

lemma fetch_attempts_1:
  "fetch_attempts remote (Suc 0) s =
     (case remote (posts s) of
        RequestException \<Rightarrow>
          fetch_attempts remote (Suc (Suc 0)) (sleep 2 (s\<lparr>posts := Suc (posts s)\<rparr>))
      | OtherException \<Rightarrow> (None, s\<lparr>posts := Suc (posts s)\<rparr>)
      | Body data \<Rightarrow> (read_body data (now s), s\<lparr>posts := Suc (posts s)\<rparr>))"
  by (subst fetch_attempts.simps)
     (simp add: max_retries_def retry_delay_def split: http_result.split)

lemma fetch_attempts_0:
  "fetch_attempts remote 0 s =
     (case remote (posts s) of
        RequestException \<Rightarrow> fetch_attempts remote (Suc 0) (sleep 1 (s\<lparr>posts := Suc (posts s)\<rparr>))
      | OtherException \<Rightarrow> (None, s\<lparr>posts := Suc (posts s)\<rparr>)
      | Body data \<Rightarrow> (read_body data (now s), s\<lparr>posts := Suc (posts s)\<rparr>))"
  by (subst fetch_attempts.simps)
     (simp add: max_retries_def retry_delay_def split: http_result.split)

lemmas fetch_unfold = fetch_token_def fetch_attempts_0 fetch_attempts_1 fetch_attempts_2 sleep_def

lemma fetch_token_cases:
  "snd (fetch_token remote s) = fetched (Suc 0) s \<or> snd (fetch_token remote s) = fetched 2 s
   \<or> snd (fetch_token remote s) = fetched 3 s"
  by (simp add: fetch_unfold fetched_def backoff_simps split: http_result.split)


lemma refresh_token_locked: "locked s \<Longrightarrow> refresh_token remote s = Deadlock s"
  by (subst refresh_token.simps) simp

lemma schedule_refresh_locked:
  assumes "locked s" "expire_time s = Some e"
  shows "schedule_refresh remote s =
     (if 0 < e - refresh_margin s - now s
      then Returns () (start_timer (e - refresh_margin s - now s) s) else Deadlock s)"
  using assms by (subst schedule_refresh.simps) (simp add: refresh_token_locked Let_def)

lemma get_token_fresh:
  assumes "\<not> locked s" "fresh s"
  shows "get_token remote s = Returns (token s) s"
proof -
  from assms(2) obtain e where "expire_time s = Some e" "e - now s > refresh_margin s"
    "token s \<noteq> JNull"
    by (auto simp: fresh_def split: option.splits)
  with assms(1) show ?thesis
    by (simp add: get_token_def Let_def)
qed

lemma get_token_stale:
  assumes "\<not> locked s" "\<not> fresh s"
  shows "get_token remote s =
     (case fetch_token remote (s\<lparr>locked := True\<rparr>) of
        (Some (tok, exp), s1) \<Rightarrow>
          (case schedule_refresh remote (s1\<lparr>token := tok, expire_time := Some exp\<rparr>) of
             Returns u s2 \<Rightarrow> Returns (token s2) (s2\<lparr>locked := False\<rparr>)
           | Raises s2 \<Rightarrow> Raises (s2\<lparr>locked := False\<rparr>)
           | Deadlock s2 \<Rightarrow> Deadlock s2)
      | (None, s1) \<Rightarrow> Returns JNull (s1\<lparr>locked := False\<rparr>))"
proof -
  from assms(2) have "token s = JNull \<or>
      (case expire_time s of None \<Rightarrow> True | Some e \<Rightarrow> e - refresh_margin s \<le> now s)"
    by (auto simp: fresh_def split: option.splits)
  with assms(1) show ?thesis
    by (cases "expire_time s") (auto simp: get_token_def Let_def)
qed


lemma fetched_fields [simp]:
  "locked (fetched n s) = locked s" "refresh_margin (fetched n s) = refresh_margin s"
  "token (fetched n s) = token s" "expire_time (fetched n s) = expire_time s"
  "timers (fetched n s) = timers s" "refresh_timer (fetched n s) = refresh_timer s"
  "fetches (fetched n s) = Suc (fetches s)" "posts (fetched n s) = posts s + n"
  "slept (fetched n s) = slept s @ backoff n" "now (fetched n s) = now s + sum_list (backoff n)"
  by (simp_all add: fetched_def)

lemma fetch_token_frame:
  obtains n where "n \<in> {1, 2, 3}" "snd (fetch_token remote s) = fetched n s"
  using fetch_token_cases [of remote s] by auto

lemma get_token_stale_result:
  assumes "\<not> locked s" "\<not> fresh s" "fetch_token remote (s\<lparr>locked := True\<rparr>) = (r, s1)"
  shows "get_token remote s =
     (case r of
        None \<Rightarrow> Returns JNull (s1\<lparr>locked := False\<rparr>)
      | Some (tok, exp) \<Rightarrow>
          if 0 < exp - refresh_margin s - now s1
          then Returns tok
            ((start_timer (exp - refresh_margin s - now s1)
                (s1\<lparr>token := tok, expire_time := Some exp\<rparr>))\<lparr>locked := False\<rparr>)
          else Deadlock (s1\<lparr>token := tok, expire_time := Some exp\<rparr>))"
proof -
  obtain n where "snd (fetch_token remote (s\<lparr>locked := True\<rparr>)) = fetched n (s\<lparr>locked := True\<rparr>)"
    by (rule fetch_token_frame)
  with assms(3) have s1: "s1 = fetched n (s\<lparr>locked := True\<rparr>)" by simp
  show ?thesis
  proof (cases r)
    case None
    with assms show ?thesis by (simp add: get_token_stale)
  next
    case (Some td)
    obtain tok exp where td: "td = (tok, exp)" by (cases td)
    have "schedule_refresh remote (s1\<lparr>token := tok, expire_time := Some exp\<rparr>) =
        (if 0 < exp - refresh_margin s - now s1
         then Returns () (start_timer (exp - refresh_margin s - now s1)
                (s1\<lparr>token := tok, expire_time := Some exp\<rparr>))
         else Deadlock (s1\<lparr>token := tok, expire_time := Some exp\<rparr>))"
      by (subst schedule_refresh_locked [where e = exp]) (simp_all add: s1)
    with assms Some td show ?thesis
      by (simp add: get_token_stale start_timer_def)
  qed
qed


lemma unlock_fetched:
  "\<not> locked s \<Longrightarrow> (fetched n (s\<lparr>locked := True\<rparr>))\<lparr>locked := False\<rparr> = fetched n s"
  by (simp add: fetched_def)





lemma fetch_token_exact:
  "snd (fetch_token remote s) = fetched (attempts remote (posts s)) s
   \<and> (fst (fetch_token remote s) \<noteq> None \<longleftrightarrow> last_answer_good remote s)"
  by (simp add: fetch_unfold fetched_def backoff_simps attempts_def last_answer_good_def
      add.commute [of "now s"] split: http_result.split)


lemma last_answer_good_locked [simp]:
  "last_answer_good remote (s\<lparr>locked := b\<rparr>) = last_answer_good remote s"
  by (simp add: last_answer_good_def split: http_result.split)

text \<open>
  C3 (amended). A call of \<open>get_token()\<close> that needs a new credential makes
  \<open>attempts\<close> requests: a request that raises a \<open>RequestException\<close> is followed by
  another, up to three in all, and a request that is answered, with an error code too, or
  that raises another exception is the last. Before the second request the call sleeps
  1 second and before the third 2 seconds (\<open>2 ^ k\<close> before request \<open>k + 2\<close>). When the
  last request brings no usable body the call returns \<open>None\<close>, the manager unchanged
  but for the clock and the counters.
\<close>

theorem get_token_retry_policy:
  assumes "\<not> locked s" and "\<not> fresh s"
  shows "posts (final (get_token remote s)) = posts s + attempts remote (posts s)
       \<and> slept (final (get_token remote s))
           = slept s @ map (\<lambda>k. 2 ^ k) [0..<attempts remote (posts s) - 1]
       \<and> (\<not> last_answer_good remote s
            \<longrightarrow> get_token remote s = Returns JNull (fetched (attempts remote (posts s)) s))"
proof -
  let ?n = "attempts remote (posts s)"
  obtain r s1 where f: "fetch_token remote (s\<lparr>locked := True\<rparr>) = (r, s1)"
    by (cases "fetch_token remote (s\<lparr>locked := True\<rparr>)")
  from fetch_token_exact [of remote "s\<lparr>locked := True\<rparr>"] f
  have s1: "s1 = fetched ?n (s\<lparr>locked := True\<rparr>)" and r: "r \<noteq> None \<longleftrightarrow> last_answer_good remote s"
    by simp_all
  have "posts (final (get_token remote s)) = posts s + ?n
      \<and> slept (final (get_token remote s)) = slept s @ backoff ?n"
    by (simp add: get_token_stale_result [OF assms f] s1 start_timer_def split: option.split)
  moreover have "get_token remote s = Returns JNull (fetched ?n s)"
    if "\<not> last_answer_good remote s"
  proof -
    from that r have "r = None" by (cases r) auto
    with get_token_stale_result [OF assms f] assms(1) show ?thesis
      by (simp add: s1 unlock_fetched)
  qed
  ultimately show ?thesis by (simp add: backoff_def)
qed

text \<open>
  C3 (amended), at a new manager whose every request raises a \<open>RequestException\<close>.
\<close>

theorem get_token_retry_policy_witness:
  "get_token (\<lambda>k. RequestException) (init_manager 300 0)
     = Returns JNull (fetched 3 (init_manager 300 0))
   \<and> slept (fetched 3 (init_manager 300 0)) = [1, 2]
   \<and> posts (fetched 3 (init_manager 300 0)) = 3"
proof -
  have h: "\<not> locked (init_manager 300 0)" "\<not> fresh (init_manager 300 0)"
    by (simp_all add: init_manager_def fresh_def)
  have a: "attempts (\<lambda>k. RequestException) (posts (init_manager 300 0)) = 3"
    "\<not> last_answer_good (\<lambda>k. RequestException) (init_manager 300 0)"
    by (simp_all add: attempts_def last_answer_good_def)
  from get_token_retry_policy [OF h, of "\<lambda>k. RequestException"] a
  have "get_token (\<lambda>k. RequestException) (init_manager 300 0)
          = Returns JNull (fetched 3 (init_manager 300 0))"
    by simp
  moreover have "slept (init_manager 300 0) = []" "posts (init_manager 300 0) = 0"
    by (simp_all add: init_manager_def)
  ultimately show ?thesis by (simp add: backoff_simps)
qed

text \<open>
  C3 as stated fails: when the remote authority answers with an error code the fetch
  fails and is not retried. The call returns \<open>None\<close> after one request and no sleep.
\<close>

theorem error_code_not_retried_counterexample:
  "get_token (\<lambda>k. err_body) (init_manager 300 0)
     = Returns JNull ((init_manager 300 0)\<lparr>posts := 1, fetches := 1\<rparr>)"
  by code_simp

lemma refresh_token_failure:
  assumes "\<not> locked s" "fetch_token remote (s\<lparr>locked := True\<rparr>) = (None, s1)"
  shows "refresh_token remote s = Returns () ((start_timer 300 s1)\<lparr>locked := False\<rparr>)"
  using assms by (subst refresh_token.simps) simp

text \<open>
  C5. A background renewal (\<open>_refresh_token\<close>, run by a timer) whose fetch fails
  returns with the stored token and its expiry unchanged and with a new timer, now the
  handle's, that fires 300 seconds later; and whenever afterwards the stored credential
  still has more than the renewal margin to live, \<open>get_token()\<close> returns that token.
\<close>

theorem refresh_failure_keeps_token:
  assumes "\<not> locked s" and "fst (fetch_token remote (s\<lparr>locked := True\<rparr>)) = None"
  shows "\<exists>s'. refresh_token remote s = Returns () s'
      \<and> token s' = token s \<and> expire_time s' = expire_time s \<and> \<not> locked s'
      \<and> timers s' = timers s @ [\<lparr>fire_at = now s' + 300, status = Pending\<rparr>]
      \<and> refresh_timer s' = Some (length (timers s))
      \<and> (\<forall>d remote'. fresh (elapse d s')
            \<longrightarrow> get_token remote' (elapse d s') = Returns (token s) (elapse d s'))"
proof -
  obtain n where "snd (fetch_token remote (s\<lparr>locked := True\<rparr>)) = fetched n (s\<lparr>locked := True\<rparr>)"
    by (rule fetch_token_frame)
  with assms(2) have f: "fetch_token remote (s\<lparr>locked := True\<rparr>)
      = (None, fetched n (s\<lparr>locked := True\<rparr>))"
    by (simp add: prod_eq_iff)
  let ?s' = "(start_timer 300 (fetched n (s\<lparr>locked := True\<rparr>)))\<lparr>locked := False\<rparr>"
  have r: "refresh_token remote s = Returns () ?s'"
    using assms(1) f by (rule refresh_token_failure)
  have fields: "token ?s' = token s" "expire_time ?s' = expire_time s" "\<not> locked ?s'"
    "timers ?s' = timers s @ [\<lparr>fire_at = now ?s' + 300, status = Pending\<rparr>]"
    "refresh_timer ?s' = Some (length (timers s))"
    by (simp_all add: start_timer_def)
  have "get_token remote' (elapse d ?s') = Returns (token s) (elapse d ?s')"
    if "fresh (elapse d ?s')" for d remote'
  proof -
    have "\<not> locked (elapse d ?s')" by (simp add: elapse_def)
    from get_token_fresh [OF this that, of remote'] show ?thesis
      by (simp add: elapse_def start_timer_def)
  qed
  with r fields show ?thesis by blast
qed


text \<open>
  C5, at the renewal due at time 6900 of a token fetched at time 0, answered by an
  error code.
\<close>

theorem refresh_failure_keeps_token_witness:
  "\<exists>s'. refresh_token (\<lambda>k. err_body) (elapse 6900 cached_manager) = Returns () s'
      \<and> token s' = JStr (ustr ''t'') \<and> expire_time s' = Some 7200
      \<and> refresh_timer s' = Some 1"
proof -
  have h1: "\<not> locked (elapse 6900 cached_manager)"
    by (simp add: elapse_def cached_manager_def)
  have h2: "fst (fetch_token (\<lambda>k. err_body) ((elapse 6900 cached_manager)\<lparr>locked := True\<rparr>)) = None"
    by (simp add: fetch_unfold err_body_def read_body_def datetime_span_def ustr_def)
  from refresh_failure_keeps_token [OF h1 h2] obtain s' where
    "refresh_token (\<lambda>k. err_body) (elapse 6900 cached_manager) = Returns () s'"
    "token s' = token (elapse 6900 cached_manager)"
    "expire_time s' = expire_time (elapse 6900 cached_manager)"
    "refresh_timer s' = Some (length (timers (elapse 6900 cached_manager)))"
    by blast
  then show ?thesis
    by (simp add: elapse_def cached_manager_def)
qed

lemma fetch_token_stale_lifetime:
  "fetch_token (\<lambda>k. ok_body 300) ((init_manager 300 0)\<lparr>locked := True\<rparr>)
     = (Some (JStr (ustr ''t''), 300), fetched (Suc 0) ((init_manager 300 0)\<lparr>locked := True\<rparr>))"
  by (simp add: fetch_unfold ok_body_def read_body_def datetime_span_def ustr_def fetched_def backoff_simps
      init_manager_def)

text \<open>
  C6 fails on the code. The first \<open>get_token()\<close> of a manager with margin 300 is
  answered a token with a lifetime of 300 seconds: the token and its expiry are stored,
  the delay is 0, \<open>_schedule_refresh\<close> calls \<open>_refresh_token\<close>, and that waits for the
  lock \<open>get_token\<close> holds. The call never returns; one request was made and no timer
  started.
\<close>

theorem get_token_stale_lifetime_deadlock:
  "get_token (\<lambda>k. ok_body 300) (init_manager 300 0)
     = Deadlock
         \<lparr>refresh_margin = 300, token = JStr (ustr ''t''), expire_time = Some 300,
          locked = True, refresh_timer = None, timers = [], now = 0, posts = 1, fetches = 1,
          slept = []\<rparr>"
proof -
  have "\<not> locked (init_manager 300 0)" "\<not> fresh (init_manager 300 0)"
    by (simp_all add: init_manager_def fresh_def)
  from get_token_stale_result [OF this fetch_token_stale_lifetime] show ?thesis
    by (simp add: fetched_def backoff_simps init_manager_def)
qed


section \<open>Timers\<close>

lemma length_cancel [simp]: "length (cancel h ts) = length ts"
  by (simp add: cancel_def)












section \<open>Callers that arrive together\<close>







end
